theory Spec2Isabelle
  imports Main
begin

section \<open>Go values, errors and formatting\<close>

text \<open>
  A value of Go's empty interface type, as far as this package handles one: the nil
  interface, an int, a string, a slice of interface values (the type of a variadic
  parameter \<^verbatim>\<open>args ...interface{}\<close> inside its function) and a pointer to
  an int variable (a Scan destination), identified by its address.
\<close>

datatype val = VNil | VInt int | VStr string | VSlice "val list" | VPtr nat

text \<open>An error value made by \<^verbatim>\<open>errors.New\<close>; a nil error is \<open>None\<close>.\<close>

datatype error = Error string

definition ErrDbInsert :: error where "ErrDbInsert = Error ''SQL insert failed''"
definition ErrDbSelect :: error where "ErrDbSelect = Error ''SQL select failed''"
definition ErrDbUpdate :: error where "ErrDbUpdate = Error ''SQL update failed''"
definition ErrStmtCreate :: error where "ErrStmtCreate = Error ''SQL create statement failed''"
definition ErrStmtClose :: error where "ErrStmtClose = Error ''SQL close statement failed''"
definition ErrStmtExec :: error where "ErrStmtExec = Error ''SQL execute statement failed''"
definition ErrTxnBegin :: error where "ErrTxnBegin = Error ''SQL transaction begin failed''"
definition ErrTxnCommit :: error where "ErrTxnCommit = Error ''SQL transaction commit failed''"

definition sentinels :: "error list" where
  "sentinels = [ErrDbInsert, ErrDbSelect, ErrDbUpdate, ErrStmtCreate, ErrStmtClose,
                ErrStmtExec, ErrTxnBegin, ErrTxnCommit]"

subsection \<open>The part of \<^verbatim>\<open>fmt.Sprintf\<close> that \<^verbatim>\<open>Query.String\<close> uses\<close>

definition digit_char :: "nat \<Rightarrow> char" where
  "digit_char n = (if n < 16 then (''0123456789abcdef'') ! n else CHR ''?'')"

fun utoa :: "nat \<Rightarrow> nat \<Rightarrow> string" where
  "utoa b n = (if b < 2 \<or> n < b then [digit_char n] else utoa b (n div b) @ [digit_char (n mod b)])"

definition itoa :: "int \<Rightarrow> string" where
  "itoa i = (if i < 0 then CHR ''-'' # utoa 10 (nat (- i)) else utoa 10 (nat i))"

fun join_sp :: "string list \<Rightarrow> string" where
  "join_sp [] = []"
| "join_sp [s] = s"
| "join_sp (s # t # ss) = s @ '' '' @ join_sp (t # ss)"

fun go_type :: "val \<Rightarrow> string" where
  "go_type VNil = ''<nil>''"
| "go_type (VInt _) = ''int''"
| "go_type (VStr _) = ''string''"
| "go_type (VSlice _) = ''[]interface {}''"
| "go_type (VPtr _) = ''*int''"

text \<open>The verb \<^verbatim>\<open>%v\<close>: the default format; a slice is its elements between brackets,
  separated by one space.\<close>

fun fmt_v :: "val \<Rightarrow> string" where
  "fmt_v VNil = ''<nil>''"
| "fmt_v (VInt i) = itoa i"
| "fmt_v (VStr s) = s"
| "fmt_v (VSlice vs) = ''['' @ join_sp (map fmt_v vs) @ '']''"
| "fmt_v (VPtr a) = ''0x'' @ utoa 16 a"

definition bad_verb :: "char \<Rightarrow> val \<Rightarrow> string" where
  "bad_verb c a =
     (if a = VNil then ''%!'' @ [c] @ ''(<nil>)''
      else ''%!'' @ [c] @ ''('' @ go_type a @ ''='' @ fmt_v a @ '')'')"

text \<open>The verb \<^verbatim>\<open>%s\<close>: a string as it is, a slice element by element, anything else
  is reported as a bad verb.\<close>

fun fmt_s :: "val \<Rightarrow> string" where
  "fmt_s (VStr s) = s"
| "fmt_s (VSlice vs) = ''['' @ join_sp (map fmt_s vs) @ '']''"
| "fmt_s a = bad_verb (CHR ''s'') a"

definition fmt_verb :: "char \<Rightarrow> val \<Rightarrow> string" where
  "fmt_verb c a =
     (if c = CHR ''v'' then fmt_v a else if c = CHR ''s'' then fmt_s a else bad_verb c a)"

fun extra_args :: "val list \<Rightarrow> string" where
  "extra_args [] = []"
| "extra_args [a] = go_type a @ (if a = VNil then [] else ''='' @ fmt_v a)"
| "extra_args (a # b # bs) =
     go_type a @ (if a = VNil then [] else ''='' @ fmt_v a) @ '', '' @ extra_args (b # bs)"

text \<open>
  The format string is copied up to each \<^verbatim>\<open>%\<close>; the character after it is the verb,
  which consumes the next operand. The verbs \<^verbatim>\<open>%v\<close> and \<^verbatim>\<open>%s\<close> are the ones
  modelled, every other character after \<^verbatim>\<open>%\<close> being taken as an unknown verb; flags,
  widths and explicit argument indexes are not modelled (the package uses none).
\<close>

fun Sprintf :: "string \<Rightarrow> val list \<Rightarrow> string" where
  "Sprintf [] as = (if as = [] then [] else ''%!(EXTRA '' @ extra_args as @ '')'')"
| "Sprintf (c # fs) as =
     (if c \<noteq> CHR ''%'' then c # Sprintf fs as
      else (case fs of
              [] \<Rightarrow> ''%!(NOVERB)''
            | v # fs' \<Rightarrow>
                if v = CHR ''%'' then CHR ''%'' # Sprintf fs' as
                else (case as of
                        [] \<Rightarrow> ''%!'' @ [v] @ ''(MISSING)'' @ Sprintf fs' []
                      | a # as' \<Rightarrow> fmt_verb v a @ Sprintf fs' as')))"

section \<open>The Query value\<close>

record Query =
  Q :: string
  Args :: "val list"

definition NewQuery :: "string \<Rightarrow> val list \<Rightarrow> Query" where
  "NewQuery q args = \<lparr>Q = q, Args = args\<rparr>"

definition String :: "Query \<Rightarrow> string" where
  "String q = Sprintf ''[%s, %v]'' [VStr (Q q), VSlice (Args q)]"

section \<open>The wrapped \<^verbatim>\<open>database/sql\<close> objects\<close>

text \<open>
  The package wraps \<^verbatim>\<open>*sql.Stmt\<close>, \<^verbatim>\<open>*sql.Row\<close> and \<^verbatim>\<open>*sql.Tx\<close> of
  Go's standard library. Their behaviour is a parameter of the model: a record of
  transition functions over a session state \<open>'s\<close>, one per method the package calls,
  each taking the object's handle first. A pointer to such an object is a
  \<open>nat option\<close>, \<open>None\<close> being the nil pointer. \<^verbatim>\<open>QueryRow\<close> of the library
  is documented to return a non-nil row always, so it yields a handle.
\<close>

datatype sql_Result = Result int int

record 's sql =
  Stmt_Close :: "nat \<Rightarrow> 's \<Rightarrow> error option \<times> 's"
  Stmt_Exec :: "nat \<Rightarrow> val list \<Rightarrow> 's \<Rightarrow> (sql_Result option \<times> error option) \<times> 's"
  Stmt_QueryRow :: "nat \<Rightarrow> val list \<Rightarrow> 's \<Rightarrow> nat \<times> 's"
  Row_Scan :: "nat \<Rightarrow> val list \<Rightarrow> 's \<Rightarrow> error option \<times> 's"
  Tx_Exec :: "nat \<Rightarrow> string \<Rightarrow> val list \<Rightarrow> 's \<Rightarrow> (sql_Result option \<times> error option) \<times> 's"
  Tx_Prepare :: "nat \<Rightarrow> string \<Rightarrow> 's \<Rightarrow> (nat option \<times> error option) \<times> 's"
  Tx_QueryRow :: "nat \<Rightarrow> string \<Rightarrow> val list \<Rightarrow> 's \<Rightarrow> nat \<times> 's"
  Tx_Commit :: "nat \<Rightarrow> 's \<Rightarrow> error option \<times> 's"
  Tx_Rollback :: "nat \<Rightarrow> 's \<Rightarrow> error option \<times> 's"

text \<open>
  The world a method runs in: the session state, and the record of every call that reached
  a library object so far, oldest first, each with the arguments the object received and
  the error it answered.
\<close>

datatype call =
    StmtClose nat
  | StmtExec nat "val list"
  | StmtQueryRow nat "val list"
  | RowScan nat "val list"
  | TxExec nat string "val list"
  | TxPrepare nat string
  | TxQueryRow nat string "val list"
  | TxCommit nat
  | TxRollback nat

record event =
  ev_call :: call
  ev_err :: "error option"

record 's world =
  trace :: "event list"
  db :: 's

text \<open>A method either panics or returns a value and the world it leaves.\<close>

datatype panic = NilDereference

type_synonym ('a, 's) go = "'s world \<Rightarrow> panic + ('a \<times> 's world)"

text \<open>
  A method call through a pointer \<open>p\<close>: the library's methods read their receiver, so
  a nil pointer panics; otherwise the method \<open>f\<close> runs on the session and the call
  \<open>c\<close> is recorded with the error \<open>err\<close> finds in the answer.
\<close>

definition call_on ::
  "nat option \<Rightarrow> (nat \<Rightarrow> call) \<Rightarrow> ('a \<Rightarrow> error option) \<Rightarrow> (nat \<Rightarrow> 's \<Rightarrow> 'a \<times> 's) \<Rightarrow> ('a, 's) go" where
  "call_on p c err f w =
     (case p of
        None \<Rightarrow> Inl NilDereference
      | Some h \<Rightarrow>
          (case f h (db w) of
             (r, s') \<Rightarrow> Inr (r, \<lparr>trace = trace w @ [\<lparr>ev_call = c h, ev_err = err r\<rparr>], db = s'\<rparr>)))"

definition sql_Stmt_Close :: "'s sql \<Rightarrow> nat option \<Rightarrow> (error option, 's) go" where
  "sql_Stmt_Close d p = call_on p StmtClose id (Stmt_Close d)"

definition sql_Stmt_Exec ::
  "'s sql \<Rightarrow> nat option \<Rightarrow> val list \<Rightarrow> (sql_Result option \<times> error option, 's) go" where
  "sql_Stmt_Exec d p args = call_on p (\<lambda>h. StmtExec h args) snd (\<lambda>h. Stmt_Exec d h args)"

definition sql_Stmt_QueryRow :: "'s sql \<Rightarrow> nat option \<Rightarrow> val list \<Rightarrow> (nat, 's) go" where
  "sql_Stmt_QueryRow d p args =
     call_on p (\<lambda>h. StmtQueryRow h args) (\<lambda>_. None) (\<lambda>h. Stmt_QueryRow d h args)"

definition sql_Row_Scan :: "'s sql \<Rightarrow> nat option \<Rightarrow> val list \<Rightarrow> (error option, 's) go" where
  "sql_Row_Scan d p dest = call_on p (\<lambda>h. RowScan h dest) id (\<lambda>h. Row_Scan d h dest)"

definition sql_Tx_Exec ::
  "'s sql \<Rightarrow> nat option \<Rightarrow> string \<Rightarrow> val list \<Rightarrow> (sql_Result option \<times> error option, 's) go" where
  "sql_Tx_Exec d p query args =
     call_on p (\<lambda>h. TxExec h query args) snd (\<lambda>h. Tx_Exec d h query args)"

definition sql_Tx_Prepare ::
  "'s sql \<Rightarrow> nat option \<Rightarrow> string \<Rightarrow> (nat option \<times> error option, 's) go" where
  "sql_Tx_Prepare d p query = call_on p (\<lambda>h. TxPrepare h query) snd (\<lambda>h. Tx_Prepare d h query)"

definition sql_Tx_QueryRow :: "'s sql \<Rightarrow> nat option \<Rightarrow> string \<Rightarrow> val list \<Rightarrow> (nat, 's) go" where
  "sql_Tx_QueryRow d p query args =
     call_on p (\<lambda>h. TxQueryRow h query args) (\<lambda>_. None) (\<lambda>h. Tx_QueryRow d h query args)"

definition sql_Tx_Commit :: "'s sql \<Rightarrow> nat option \<Rightarrow> (error option, 's) go" where
  "sql_Tx_Commit d p = call_on p TxCommit id (Tx_Commit d)"

definition sql_Tx_Rollback :: "'s sql \<Rightarrow> nat option \<Rightarrow> (error option, 's) go" where
  "sql_Tx_Rollback d p = call_on p TxRollback id (Tx_Rollback d)"

section \<open>The wrappers\<close>

text \<open>
  Inside a function with the parameter \<^verbatim>\<open>args ...interface{}\<close>, \<^verbatim>\<open>args\<close> is one
  slice value. Passing it on as \<^verbatim>\<open>f(args...)\<close> hands \<open>f\<close> the same argument list;
  passing it on as \<^verbatim>\<open>f(args)\<close> hands \<open>f\<close> a list of one argument, the slice.
  Methods are modelled on an existing receiver; the pointer each wrapper holds may be nil.
\<close>

record DbRow =
  R :: "nat option"

definition DbRow_Scan :: "'s sql \<Rightarrow> DbRow \<Rightarrow> val list \<Rightarrow> (error option, 's) go" where
  "DbRow_Scan d r args = sql_Row_Scan d (R r) [VSlice args]"

record DbRowV =
  V :: "val list"

record DbStmt =
  S :: "nat option"

definition DbStmt_Close :: "'s sql \<Rightarrow> DbStmt \<Rightarrow> (error option, 's) go" where
  "DbStmt_Close d st = sql_Stmt_Close d (S st)"

definition DbStmt_Exec ::
  "'s sql \<Rightarrow> DbStmt \<Rightarrow> val list \<Rightarrow> (sql_Result option \<times> error option, 's) go" where
  "DbStmt_Exec d st args = sql_Stmt_Exec d (S st) [VSlice args]"

text \<open>The Row a QueryRow returns is a pointer to a fresh \<open>DbRow\<close>: \<open>Some\<close> of it.\<close>

definition DbStmt_QueryRow :: "'s sql \<Rightarrow> DbStmt \<Rightarrow> val list \<Rightarrow> (DbRow option, 's) go" where
  "DbStmt_QueryRow d st args w =
     (case sql_Stmt_QueryRow d (S st) [VSlice args] w of
        Inl p \<Rightarrow> Inl p
      | Inr (r, w') \<Rightarrow> Inr (Some \<lparr>R = Some r\<rparr>, w'))"

text \<open>The loop of \<^verbatim>\<open>BatchInsert\<close> over the rows left; an error ends the method.\<close>

fun BatchInsert_loop :: "'s sql \<Rightarrow> DbStmt \<Rightarrow> DbRowV list \<Rightarrow> (error option, 's) go" where
  "BatchInsert_loop d st [] w = Inr (None, w)"
| "BatchInsert_loop d st (r # rows) w =
     (case DbStmt_Exec d st (V r) w of
        Inl p \<Rightarrow> Inl p
      | Inr ((_, err), w') \<Rightarrow>
          if err \<noteq> None then Inr (err, w') else BatchInsert_loop d st rows w')"

definition BatchInsert :: "'s sql \<Rightarrow> DbStmt \<Rightarrow> DbRowV list \<Rightarrow> (error option, 's) go" where
  "BatchInsert d st rows w =
     (case BatchInsert_loop d st rows w of
        Inl p \<Rightarrow> Inl p
      | Inr (err, w') \<Rightarrow>
          if err \<noteq> None then Inr (err, w')
          else (case DbStmt_Exec d st [] w' of
                  Inl p \<Rightarrow> Inl p
                | Inr ((_, err'), w'') \<Rightarrow>
                    if err' \<noteq> None then Inr (err', w'') else Inr (None, w'')))"

record TxHandle =
  T :: "nat option"

definition TxHandle_Exec ::
  "'s sql \<Rightarrow> TxHandle \<Rightarrow> string \<Rightarrow> val list \<Rightarrow> (sql_Result option \<times> error option, 's) go" where
  "TxHandle_Exec d tx query args = sql_Tx_Exec d (T tx) query args"

definition TxHandle_Prepare ::
  "'s sql \<Rightarrow> TxHandle \<Rightarrow> string \<Rightarrow> (DbStmt option \<times> error option, 's) go" where
  "TxHandle_Prepare d tx query w =
     (case sql_Tx_Prepare d (T tx) query w of
        Inl p \<Rightarrow> Inl p
      | Inr ((s, err), w') \<Rightarrow> Inr ((Some \<lparr>S = s\<rparr>, err), w'))"


definition TxHandle_Commit :: "'s sql \<Rightarrow> TxHandle \<Rightarrow> (error option, 's) go" where
  "TxHandle_Commit d tx = sql_Tx_Commit d (T tx)"

definition TxHandle_Rollback :: "'s sql \<Rightarrow> TxHandle \<Rightarrow> (error option, 's) go" where
  "TxHandle_Rollback d tx = sql_Tx_Rollback d (T tx)"

section \<open>A sample session\<close>

text \<open>
  One concrete behaviour of the library objects, to run the wrappers on: a session over a
  table that holds the single row \<open>(1, 10)\<close>, keyed by its first column. It follows what
  \<^verbatim>\<open>database/sql\<close> documents: a finished transaction answers
  \<^verbatim>\<open>ErrTxDone\<close>, a row query never fails by itself, and Scan reports
  \<^verbatim>\<open>ErrNoRows\<close>, a wrong number of destinations or a destination that is no
  pointer. The server accepts \<open>execs_left\<close> more statement executions. Row handle
  \<open>0\<close> stands for an empty result, \<open>1\<close> for the row of the table and \<open>2\<close> for
  the result of a query on a finished transaction.
\<close>

definition ErrTxDone :: error where
  "ErrTxDone = Error ''sql: transaction has already been committed or rolled back''"

definition ErrNoRows :: error where
  "ErrNoRows = Error ''sql: no rows in result set''"

record session =
  tx_done :: bool
  execs_left :: nat
  cells :: "(nat \<times> val) list"

definition sample_Scan :: "nat \<Rightarrow> val list \<Rightarrow> session \<Rightarrow> error option \<times> session" where
  "sample_Scan r dest s =
     (if r = 2 then (Some ErrTxDone, s)
      else if r = 0 then (Some ErrNoRows, s)
      else if length dest \<noteq> 2 then (Some (Error ''sql: wrong number of destination arguments in Scan''), s)
      else (case dest of
              [VPtr a, VPtr b] \<Rightarrow> (None, s\<lparr>cells := (a, VInt 1) # (b, VInt 10) # cells s\<rparr>)
            | _ \<Rightarrow> (Some (Error ''sql: Scan error: destination not a pointer''), s)))"

definition sample_Stmt_Exec ::
  "nat \<Rightarrow> val list \<Rightarrow> session \<Rightarrow> (sql_Result option \<times> error option) \<times> session" where
  "sample_Stmt_Exec h args s =
     (if execs_left s = 0 then ((None, Some (Error ''driver: bad connection'')), s)
      else ((Some (Result 0 1), None), s\<lparr>execs_left := execs_left s - 1\<rparr>))"

definition sample_Tx_Prepare ::
  "nat \<Rightarrow> string \<Rightarrow> session \<Rightarrow> (nat option \<times> error option) \<times> session" where
  "sample_Tx_Prepare t query s =
     (if tx_done s then ((None, Some ErrTxDone), s)
      else if query = [] then ((None, Some (Error ''syntax error'')), s)
      else ((Some 0, None), s))"

definition sample :: "session sql" where
  "sample =
     \<lparr>Stmt_Close = (\<lambda>h s. (None, s)),
      Stmt_Exec = sample_Stmt_Exec,
      Stmt_QueryRow = (\<lambda>h args s. (if args = [VInt 1] then 1 else 0, s)),
      Row_Scan = sample_Scan,
      Tx_Exec = (\<lambda>t query args s.
         if tx_done s then ((None, Some ErrTxDone), s) else ((Some (Result 0 1), None), s)),
      Tx_Prepare = sample_Tx_Prepare,
      Tx_QueryRow = (\<lambda>t query args s.
         (if tx_done s then 2 else if args = [VInt 1] then 1 else 0, s)),
      Tx_Commit = (\<lambda>t s. if tx_done s then (Some ErrTxDone, s) else (None, s\<lparr>tx_done := True\<rparr>)),
      Tx_Rollback = (\<lambda>t s. if tx_done s then (Some ErrTxDone, s) else (None, s\<lparr>tx_done := True\<rparr>))\<rparr>"


definition fresh :: "nat \<Rightarrow> session world" where
  "fresh n = \<lparr>trace = [], db = \<lparr>tx_done = False, execs_left = n, cells = []\<rparr>\<rparr>"

section \<open>Calls through a pointer\<close>

lemmas sql_defs = sql_Stmt_Close_def sql_Stmt_Exec_def sql_Stmt_QueryRow_def sql_Row_Scan_def
  sql_Tx_Exec_def sql_Tx_Prepare_def sql_Tx_QueryRow_def sql_Tx_Commit_def sql_Tx_Rollback_def

lemmas sample_defs = sample_def sample_Stmt_Exec_def sample_Scan_def sample_Tx_Prepare_def
  fresh_def ErrTxDone_def ErrNoRows_def

lemma call_on_nil: "call_on None c err f w = Inl NilDereference"
  by (simp add: call_on_def)

lemma call_on_ptr:
  "call_on (Some h) c err f w =
     Inr (fst (f h (db w)),
          \<lparr>trace = trace w @ [\<lparr>ev_call = c h, ev_err = err (fst (f h (db w)))\<rparr>],
           db = snd (f h (db w))\<rparr>)"
  by (simp add: call_on_def split: prod.split)

lemma call_on_returns:
  assumes "call_on p c err f w = Inr (x, w')"
  shows "\<exists>h. p = Some h \<and> x = fst (f h (db w)) \<and> db w' = snd (f h (db w)) \<and>
             trace w' = trace w @ [\<lparr>ev_call = c h, ev_err = err x\<rparr>]"
proof (cases p)
  case None
  with assms show ?thesis by (simp add: call_on_nil)
next
  case (Some h)
  with assms show ?thesis by (auto simp: call_on_ptr)
qed

lemma call_on_last:
  assumes "call_on p c err f w = Inr (x, w')"
  shows "\<exists>evs. trace w' = trace w @ evs \<and> evs \<noteq> [] \<and> ev_err (last evs) = err x"
  using call_on_returns [OF assms] by auto

lemma DbStmt_Exec_returns:
  assumes "DbStmt_Exec d st args w = Inr ((r, e), w')"
  shows "\<exists>h. S st = Some h \<and>
             trace w' = trace w @ [\<lparr>ev_call = StmtExec h [VSlice args], ev_err = e\<rparr>]"
  using call_on_returns [OF assms [unfolded DbStmt_Exec_def sql_Stmt_Exec_def]] by auto

lemma DbStmt_Exec_nil: "DbStmt_Exec d \<lparr>S = None\<rparr> args w = Inl NilDereference"
  by (simp add: DbStmt_Exec_def sql_Stmt_Exec_def call_on_nil)


section \<open>The loop of BatchInsert\<close>

lemma loop_prefix_ok:
  assumes "BatchInsert_loop d st (r # rows) w = Inr (None, w')"
  shows "\<exists>x w1. DbStmt_Exec d st (V r) w = Inr ((x, None), w1) \<and>
                BatchInsert_loop d st rows w1 = Inr (None, w')"
  using assms by (auto split: sum.splits prod.splits if_splits)

lemma loop_stops:
  assumes "k < length rows"
    and "BatchInsert_loop d st (take k rows) w = Inr (None, wk)"
    and "DbStmt_Exec d st (V (rows ! k)) wk = Inr ((r, Some e), wk')"
  shows "BatchInsert_loop d st rows w = Inr (Some e, wk')"
  using assms
proof (induction rows arbitrary: k w)
  case Nil
  then show ?case by simp
next
  case (Cons a rows)
  show ?case
  proof (cases k)
    case 0
    with Cons.prems show ?thesis by simp
  next
    case (Suc j)
    with Cons.prems have "BatchInsert_loop d st (a # take j rows) w = Inr (None, wk)" by simp
    then obtain x w1 where a: "DbStmt_Exec d st (V a) w = Inr ((x, None), w1)"
      and rest: "BatchInsert_loop d st (take j rows) w1 = Inr (None, wk)"
      using loop_prefix_ok by blast
    from Cons.prems Suc have "j < length rows"
      and "DbStmt_Exec d st (V (rows ! j)) wk = Inr ((r, Some e), wk')"
      by simp_all
    with rest have "BatchInsert_loop d st rows w1 = Inr (Some e, wk')"
      using Cons.IH by blast
    with a show ?thesis by simp
  qed
qed

lemma loop_ok_length:
  "BatchInsert_loop d st rows w = Inr (None, w') \<Longrightarrow>
     length (trace w') = length (trace w) + length rows"
proof (induction rows arbitrary: w)
  case Nil
  then show ?case by simp
next
  case (Cons a rows)
  then obtain x w1 where a: "DbStmt_Exec d st (V a) w = Inr ((x, None), w1)"
      and rest: "BatchInsert_loop d st rows w1 = Inr (None, w')"
    using loop_prefix_ok by blast
  from DbStmt_Exec_returns [OF a] have "length (trace w1) = Suc (length (trace w))" by auto
  with Cons.IH [OF rest] show ?case by simp
qed

lemma loop_error_last:
  "BatchInsert_loop d st rows w = Inr (e, w') \<Longrightarrow>
     \<exists>evs. trace w' = trace w @ evs \<and> (e \<noteq> None \<longrightarrow> evs \<noteq> [] \<and> ev_err (last evs) = e)"
proof (induction rows arbitrary: w)
  case Nil
  then show ?case by simp
next
  case (Cons a rows)
  from Cons.prems obtain x e1 w1 where a: "DbStmt_Exec d st (V a) w = Inr ((x, e1), w1)"
    by (auto split: sum.splits)
  from DbStmt_Exec_returns [OF a] obtain ev where ev: "trace w1 = trace w @ [ev]" "ev_err ev = e1"
    by auto
  show ?case
  proof (cases e1)
    case None
    with a Cons.prems have "BatchInsert_loop d st rows w1 = Inr (e, w')" by simp
    from Cons.IH [OF this] obtain evs where
      "trace w' = trace w1 @ evs" "e \<noteq> None \<longrightarrow> evs \<noteq> [] \<and> ev_err (last evs) = e" by blast
    with ev have "trace w' = trace w @ (ev # evs) \<and>
        (e \<noteq> None \<longrightarrow> ev # evs \<noteq> [] \<and> ev_err (last (ev # evs)) = e)" by simp
    then show ?thesis by blast
  next
    case (Some y)
    with a Cons.prems have "e = e1" "w' = w1" by simp_all
    with ev have "trace w' = trace w @ [ev] \<and>
        (e \<noteq> None \<longrightarrow> [ev] \<noteq> [] \<and> ev_err (last [ev]) = e)"
      by simp
    then show ?thesis by blast
  qed
qed

lemma BatchInsert_error_last:
  assumes "BatchInsert d st rows w = Inr (e, w')"
  shows "\<exists>evs. trace w' = trace w @ evs \<and> evs \<noteq> [] \<and> ev_err (last evs) = e"
proof -
  from assms obtain e1 w1 where l: "BatchInsert_loop d st rows w = Inr (e1, w1)"
    by (auto simp: BatchInsert_def split: sum.splits)
  from loop_error_last [OF l] obtain evs where evs: "trace w1 = trace w @ evs"
    "e1 \<noteq> None \<longrightarrow> evs \<noteq> [] \<and> ev_err (last evs) = e1" by blast
  show ?thesis
  proof (cases e1)
    case (Some y)
    with l assms have "e = e1" "w' = w1" by (simp_all add: BatchInsert_def)
    with evs Some show ?thesis by auto
  next
    case None
    with l assms obtain x e2 w2 where f: "DbStmt_Exec d st [] w1 = Inr ((x, e2), w2)"
      by (auto simp: BatchInsert_def split: sum.splits)
    with l None assms have r: "e = e2" "w' = w2"
      by (auto simp: BatchInsert_def split: if_splits)
    from DbStmt_Exec_returns [OF f] obtain ev where "trace w2 = trace w1 @ [ev]" "ev_err ev = e2"
      by auto
    with evs r have "trace w' = trace w @ (evs @ [ev]) \<and> evs @ [ev] \<noteq> [] \<and>
        ev_err (last (evs @ [ev])) = e"
      by simp
    then show ?thesis by blast
  qed
qed

lemma BatchInsert_nil: "BatchInsert d \<lparr>S = None\<rparr> rows w = Inl NilDereference"
  by (cases rows) (simp_all add: BatchInsert_def DbStmt_Exec_nil)

section \<open>BatchInsert\<close>

text \<open>
  C1. BatchInsert run on the rows \<open>[1, x]\<close> and \<open>[2, y]\<close>, against a statement that
  accepts every execution, returns no error after three executions of the prepared
  statement, in row order; but each execution binds a single argument, the slice of the
  row's values, and the last one binds the empty slice, where the values of the row and
  no argument at all were to be bound. On the empty list the one execution made binds the
  empty slice as well.
\<close>

theorem BatchInsert_binds_one_slice:
  "BatchInsert sample \<lparr>S = Some 0\<rparr>
       [\<lparr>V = [VInt 1, VStr ''x'']\<rparr>, \<lparr>V = [VInt 2, VStr ''y'']\<rparr>] (fresh 5) =
     Inr (None, \<lparr>trace = [\<lparr>ev_call = StmtExec 0 [VSlice [VInt 1, VStr ''x'']], ev_err = None\<rparr>,
                          \<lparr>ev_call = StmtExec 0 [VSlice [VInt 2, VStr ''y'']], ev_err = None\<rparr>,
                          \<lparr>ev_call = StmtExec 0 [VSlice []], ev_err = None\<rparr>],
                 db = \<lparr>tx_done = False, execs_left = 2, cells = []\<rparr>\<rparr>)
   \<and> BatchInsert sample \<lparr>S = Some 0\<rparr> [] (fresh 5) =
     Inr (None, \<lparr>trace = [\<lparr>ev_call = StmtExec 0 [VSlice []], ev_err = None\<rparr>],
                 db = \<lparr>tx_done = False, execs_left = 4, cells = []\<rparr>\<rparr>)"
  by (simp add: BatchInsert_def DbStmt_Exec_def sql_defs call_on_def sample_defs)

text \<open>
  C2. When the loop over the first \<open>k\<close> rows meets no error and the execution of row
  \<open>k\<close> answers the error \<open>e\<close>, BatchInsert returns \<open>e\<close> and leaves the world as that
  execution left it: \<open>k + 1\<close> calls reached the statement, so no later row was executed
  and the flushing execution was not made.
\<close>

theorem BatchInsert_stops_at_first_error:
  assumes "k < length rows"
    and "BatchInsert_loop d st (take k rows) w = Inr (None, wk)"
    and "DbStmt_Exec d st (V (rows ! k)) wk = Inr ((r, Some e), wk')"
  shows "BatchInsert d st rows w = Inr (Some e, wk') \<and>
         length (trace wk') = length (trace w) + Suc k"
proof -
  have "BatchInsert_loop d st rows w = Inr (Some e, wk')"
    using assms by (rule loop_stops)
  then have ret: "BatchInsert d st rows w = Inr (Some e, wk')"
    by (simp add: BatchInsert_def)
  have "length (trace wk) = length (trace w) + k"
    using loop_ok_length [OF assms(2)] assms(1) by simp
  moreover have "length (trace wk') = Suc (length (trace wk))"
    using DbStmt_Exec_returns [OF assms(3)] by auto
  ultimately show ?thesis using ret by simp
qed

theorem BatchInsert_stops_at_first_error_witness:
  "(1::nat) < length [\<lparr>V = [VInt 1, VStr ''x'']\<rparr>, \<lparr>V = [VInt 2, VStr ''y'']\<rparr>,
                      \<lparr>V = [VInt 3, VStr ''z'']\<rparr>]
   \<and> BatchInsert_loop sample \<lparr>S = Some 0\<rparr> [\<lparr>V = [VInt 1, VStr ''x'']\<rparr>] (fresh 1) =
       Inr (None, \<lparr>trace = [\<lparr>ev_call = StmtExec 0 [VSlice [VInt 1, VStr ''x'']], ev_err = None\<rparr>],
                   db = \<lparr>tx_done = False, execs_left = 0, cells = []\<rparr>\<rparr>)
   \<and> BatchInsert sample \<lparr>S = Some 0\<rparr>
       [\<lparr>V = [VInt 1, VStr ''x'']\<rparr>, \<lparr>V = [VInt 2, VStr ''y'']\<rparr>, \<lparr>V = [VInt 3, VStr ''z'']\<rparr>]
       (fresh 1) =
       Inr (Some (Error ''driver: bad connection''),
            \<lparr>trace = [\<lparr>ev_call = StmtExec 0 [VSlice [VInt 1, VStr ''x'']], ev_err = None\<rparr>,
                      \<lparr>ev_call = StmtExec 0 [VSlice [VInt 2, VStr ''y'']],
                       ev_err = Some (Error ''driver: bad connection'')\<rparr>],
             db = \<lparr>tx_done = False, execs_left = 0, cells = []\<rparr>\<rparr>)"
  using BatchInsert_stops_at_first_error [of 1
     "[\<lparr>V = [VInt 1, VStr ''x'']\<rparr>, \<lparr>V = [VInt 2, VStr ''y'']\<rparr>, \<lparr>V = [VInt 3, VStr ''z'']\<rparr>]"
     sample "\<lparr>S = Some 0\<rparr>" "fresh 1"
     "\<lparr>trace = [\<lparr>ev_call = StmtExec 0 [VSlice [VInt 1, VStr ''x'']], ev_err = None\<rparr>],
       db = \<lparr>tx_done = False, execs_left = 0, cells = []\<rparr>\<rparr>"
     None "Error ''driver: bad connection''"
     "\<lparr>trace = [\<lparr>ev_call = StmtExec 0 [VSlice [VInt 1, VStr ''x'']], ev_err = None\<rparr>,
               \<lparr>ev_call = StmtExec 0 [VSlice [VInt 2, VStr ''y'']],
                ev_err = Some (Error ''driver: bad connection'')\<rparr>],
       db = \<lparr>tx_done = False, execs_left = 0, cells = []\<rparr>\<rparr>"]
  by (simp add: DbStmt_Exec_def sql_defs call_on_def sample_defs)

section \<open>The Statement and Row wrappers\<close>

text \<open>
  C3. Exec of the Statement wrapper, called with the arguments \<open>1\<close> and \<open>x\<close>, executes
  the prepared statement with one bound argument, the slice \<open>[1 x]\<close>, and returns the
  library's result and error; Exec of the transaction handle, called with the same
  arguments, hands the transaction the two arguments themselves.
\<close>

theorem DbStmt_Exec_binds_one_slice:
  "DbStmt_Exec sample \<lparr>S = Some 0\<rparr> [VInt 1, VStr ''x''] (fresh 5) =
     Inr ((Some (Result 0 1), None),
          \<lparr>trace = [\<lparr>ev_call = StmtExec 0 [VSlice [VInt 1, VStr ''x'']], ev_err = None\<rparr>],
           db = \<lparr>tx_done = False, execs_left = 4, cells = []\<rparr>\<rparr>)
   \<and> TxHandle_Exec sample \<lparr>T = Some 0\<rparr> ''INSERT INTO t(a,b) VALUES (?,?)''
       [VInt 1, VStr ''x''] (fresh 5) =
     Inr ((Some (Result 0 1), None),
          \<lparr>trace = [\<lparr>ev_call = TxExec 0 ''INSERT INTO t(a,b) VALUES (?,?)'' [VInt 1, VStr ''x''],
                     ev_err = None\<rparr>],
           db = \<lparr>tx_done = False, execs_left = 5, cells = []\<rparr>\<rparr>)"
  by (simp add: DbStmt_Exec_def TxHandle_Exec_def sql_defs call_on_def sample_defs)

text \<open>
  C4. Scan of the Row wrapper, called with two destinations on the row of the table,
  hands the library's Scan a single destination, the slice of the two pointers: that Scan
  rejects the call and nothing is copied. Given the two pointers themselves, the library's
  Scan stores both columns.
\<close>

theorem DbRow_Scan_passes_one_slice:
  "DbRow_Scan sample \<lparr>R = Some 1\<rparr> [VPtr 0, VPtr 1] (fresh 5) =
     Inr (Some (Error ''sql: wrong number of destination arguments in Scan''),
          \<lparr>trace = [\<lparr>ev_call = RowScan 1 [VSlice [VPtr 0, VPtr 1]],
                     ev_err = Some (Error ''sql: wrong number of destination arguments in Scan'')\<rparr>],
           db = \<lparr>tx_done = False, execs_left = 5, cells = []\<rparr>\<rparr>)
   \<and> Row_Scan sample 1 [VPtr 0, VPtr 1] (db (fresh 5)) =
     (None, \<lparr>tx_done = False, execs_left = 5, cells = [(0, VInt 1), (1, VInt 10)]\<rparr>)"
  by (simp add: DbRow_Scan_def sql_defs call_on_def sample_defs)



section \<open>The transaction handle\<close>







text \<open>
  C9. Prepare of the transaction handle never returns a nil Statement. When the library's
  Prepare fails, answering a nil statement and the error \<open>e\<close>, the handle's Prepare returns
  \<open>e\<close> together with a Statement that wraps the nil pointer; Exec, QueryRow, Close and
  BatchInsert on that Statement panic.
\<close>

theorem TxHandle_Prepare_failure:
  "(TxHandle_Prepare d tx query w = Inr ((st, err), w') \<longrightarrow> st \<noteq> None)
   \<and> (T tx = Some t \<and> Tx_Prepare d t query (db w) = ((None, Some e), s') \<longrightarrow>
        (\<exists>w1. TxHandle_Prepare d tx query w = Inr ((Some \<lparr>S = None\<rparr>, Some e), w1)
           \<and> DbStmt_Exec d \<lparr>S = None\<rparr> args w1 = Inl NilDereference
           \<and> DbStmt_QueryRow d \<lparr>S = None\<rparr> args w1 = Inl NilDereference
           \<and> DbStmt_Close d \<lparr>S = None\<rparr> w1 = Inl NilDereference
           \<and> BatchInsert d \<lparr>S = None\<rparr> rows w1 = Inl NilDereference))"
proof (intro conjI impI)
  assume "TxHandle_Prepare d tx query w = Inr ((st, err), w')"
  then show "st \<noteq> None"
    by (auto simp: TxHandle_Prepare_def split: sum.splits prod.splits)
next
  assume "T tx = Some t \<and> Tx_Prepare d t query (db w) = ((None, Some e), s')"
  then have "\<exists>w1. TxHandle_Prepare d tx query w = Inr ((Some \<lparr>S = None\<rparr>, Some e), w1)"
    by (simp add: TxHandle_Prepare_def sql_Tx_Prepare_def call_on_ptr)
  moreover have "DbStmt_QueryRow d \<lparr>S = None\<rparr> args w1 = Inl NilDereference"
    and "DbStmt_Close d \<lparr>S = None\<rparr> w1 = Inl NilDereference" for w1
    by (simp_all add: DbStmt_QueryRow_def DbStmt_Close_def sql_Stmt_QueryRow_def
          sql_Stmt_Close_def call_on_nil)
  ultimately show "\<exists>w1. TxHandle_Prepare d tx query w = Inr ((Some \<lparr>S = None\<rparr>, Some e), w1)
           \<and> DbStmt_Exec d \<lparr>S = None\<rparr> args w1 = Inl NilDereference
           \<and> DbStmt_QueryRow d \<lparr>S = None\<rparr> args w1 = Inl NilDereference
           \<and> DbStmt_Close d \<lparr>S = None\<rparr> w1 = Inl NilDereference
           \<and> BatchInsert d \<lparr>S = None\<rparr> rows w1 = Inl NilDereference"
    using DbStmt_Exec_nil BatchInsert_nil by blast
qed

theorem TxHandle_Prepare_failure_witness:
  "T \<lparr>T = Some (0::nat)\<rparr> = Some 0
   \<and> Tx_Prepare sample 0 [] (db (fresh 0)) = ((None, Some (Error ''syntax error'')), db (fresh 0))
   \<and> (\<exists>w1. TxHandle_Prepare sample \<lparr>T = Some 0\<rparr> [] (fresh 0) =
              Inr ((Some \<lparr>S = None\<rparr>, Some (Error ''syntax error'')), w1)
           \<and> DbStmt_Exec sample \<lparr>S = None\<rparr> [VInt 1] w1 = Inl NilDereference
           \<and> DbStmt_QueryRow sample \<lparr>S = None\<rparr> [VInt 1] w1 = Inl NilDereference
           \<and> DbStmt_Close sample \<lparr>S = None\<rparr> w1 = Inl NilDereference
           \<and> BatchInsert sample \<lparr>S = None\<rparr> [\<lparr>V = [VInt 1]\<rparr>] w1 = Inl NilDereference)"
proof -
  have p: "Tx_Prepare sample 0 [] (db (fresh 0)) =
      ((None, Some (Error ''syntax error'')), db (fresh 0))"
    by (simp add: sample_defs)
  show ?thesis
    using p TxHandle_Prepare_failure [of sample "\<lparr>T = Some 0\<rparr>" "[]" "fresh 0" None None "fresh 0"
      0 "Error ''syntax error''" "db (fresh 0)" "[VInt 1]" "[\<lparr>V = [VInt 1]\<rparr>]"]
    by simp
qed

section \<open>The Query value and the errors returned\<close>

text \<open>
  C7. For every text and every argument list, the string form of
  \<open>NewQuery text args\<close> is an opening bracket, the text, a comma and a space, the
  argument slice in Go's default rendering, and a closing bracket.
\<close>

theorem String_NewQuery:
  "String (NewQuery text args) = ''['' @ text @ '', '' @ fmt_v (VSlice args) @ '']''"
  by (simp add: String_def NewQuery_def fmt_verb_def)

text \<open>
  C10. Whenever an operation of this package returns an error value (nil or not), at least
  one call reached a library object during the operation, and the value returned is the
  one the library answered to the last of these calls. No operation makes an error of its
  own, so none of the package's eight error variables is returned unless the library
  itself answers it.
\<close>

theorem errors_come_from_the_library:
  "(DbStmt_Close d st w = Inr (e, w') \<longrightarrow>
      (\<exists>evs. trace w' = trace w @ evs \<and> evs \<noteq> [] \<and> ev_err (last evs) = e))
   \<and> (DbStmt_Exec d st args w = Inr ((r, e), w') \<longrightarrow>
      (\<exists>evs. trace w' = trace w @ evs \<and> evs \<noteq> [] \<and> ev_err (last evs) = e))
   \<and> (BatchInsert d st rows w = Inr (e, w') \<longrightarrow>
      (\<exists>evs. trace w' = trace w @ evs \<and> evs \<noteq> [] \<and> ev_err (last evs) = e))
   \<and> (DbRow_Scan d row dest w = Inr (e, w') \<longrightarrow>
      (\<exists>evs. trace w' = trace w @ evs \<and> evs \<noteq> [] \<and> ev_err (last evs) = e))
   \<and> (TxHandle_Exec d tx query args w = Inr ((r, e), w') \<longrightarrow>
      (\<exists>evs. trace w' = trace w @ evs \<and> evs \<noteq> [] \<and> ev_err (last evs) = e))
   \<and> (TxHandle_Prepare d tx query w = Inr ((s, e), w') \<longrightarrow>
      (\<exists>evs. trace w' = trace w @ evs \<and> evs \<noteq> [] \<and> ev_err (last evs) = e))
   \<and> (TxHandle_Commit d tx w = Inr (e, w') \<longrightarrow>
      (\<exists>evs. trace w' = trace w @ evs \<and> evs \<noteq> [] \<and> ev_err (last evs) = e))
   \<and> (TxHandle_Rollback d tx w = Inr (e, w') \<longrightarrow>
      (\<exists>evs. trace w' = trace w @ evs \<and> evs \<noteq> [] \<and> ev_err (last evs) = e))"
proof (intro conjI impI)
  assume "DbStmt_Close d st w = Inr (e, w')"
  then show "\<exists>evs. trace w' = trace w @ evs \<and> evs \<noteq> [] \<and> ev_err (last evs) = e"
    using call_on_last [of "S st" StmtClose id "Stmt_Close d" w e w']
    by (simp add: DbStmt_Close_def sql_Stmt_Close_def)
next
  assume "DbStmt_Exec d st args w = Inr ((r, e), w')"
  then show "\<exists>evs. trace w' = trace w @ evs \<and> evs \<noteq> [] \<and> ev_err (last evs) = e"
    using DbStmt_Exec_returns by fastforce
next
  assume "BatchInsert d st rows w = Inr (e, w')"
  then show "\<exists>evs. trace w' = trace w @ evs \<and> evs \<noteq> [] \<and> ev_err (last evs) = e"
    by (rule BatchInsert_error_last)
next
  assume "DbRow_Scan d row dest w = Inr (e, w')"
  then show "\<exists>evs. trace w' = trace w @ evs \<and> evs \<noteq> [] \<and> ev_err (last evs) = e"
    using call_on_last [of "R row" "\<lambda>h. RowScan h [VSlice dest]" id
        "\<lambda>h. Row_Scan d h [VSlice dest]" w e w']
    by (simp add: DbRow_Scan_def sql_Row_Scan_def)
next
  assume "TxHandle_Exec d tx query args w = Inr ((r, e), w')"
  then show "\<exists>evs. trace w' = trace w @ evs \<and> evs \<noteq> [] \<and> ev_err (last evs) = e"
    using call_on_last [of "T tx" "\<lambda>h. TxExec h query args" snd
        "\<lambda>h. Tx_Exec d h query args" w "(r, e)" w']
    by (simp add: TxHandle_Exec_def sql_Tx_Exec_def)
next
  assume "TxHandle_Prepare d tx query w = Inr ((s, e), w')"
  then obtain s0 where
    "call_on (T tx) (\<lambda>h. TxPrepare h query) snd (\<lambda>h. Tx_Prepare d h query) w = Inr ((s0, e), w')"
    by (auto simp: TxHandle_Prepare_def sql_Tx_Prepare_def split: sum.splits)
  from call_on_last [OF this]
  show "\<exists>evs. trace w' = trace w @ evs \<and> evs \<noteq> [] \<and> ev_err (last evs) = e" by simp
next
  assume "TxHandle_Commit d tx w = Inr (e, w')"
  then show "\<exists>evs. trace w' = trace w @ evs \<and> evs \<noteq> [] \<and> ev_err (last evs) = e"
    using call_on_last [of "T tx" TxCommit id "Tx_Commit d" w e w']
    by (simp add: TxHandle_Commit_def sql_Tx_Commit_def)
next
  assume "TxHandle_Rollback d tx w = Inr (e, w')"
  then show "\<exists>evs. trace w' = trace w @ evs \<and> evs \<noteq> [] \<and> ev_err (last evs) = e"
    using call_on_last [of "T tx" TxRollback id "Tx_Rollback d" w e w']
    by (simp add: TxHandle_Rollback_def sql_Tx_Rollback_def)
qed

theorem errors_come_from_the_library_witness:
  "BatchInsert sample \<lparr>S = Some 0\<rparr> [\<lparr>V = [VInt 1, VStr ''x'']\<rparr>, \<lparr>V = [VInt 2, VStr ''y'']\<rparr>]
       (fresh 1) =
     Inr (Some (Error ''driver: bad connection''),
          \<lparr>trace = [\<lparr>ev_call = StmtExec 0 [VSlice [VInt 1, VStr ''x'']], ev_err = None\<rparr>,
                    \<lparr>ev_call = StmtExec 0 [VSlice [VInt 2, VStr ''y'']],
                     ev_err = Some (Error ''driver: bad connection'')\<rparr>],
           db = \<lparr>tx_done = False, execs_left = 0, cells = []\<rparr>\<rparr>)
   \<and> (\<exists>evs. [\<lparr>ev_call = StmtExec 0 [VSlice [VInt 1, VStr ''x'']], ev_err = None\<rparr>,
              \<lparr>ev_call = StmtExec 0 [VSlice [VInt 2, VStr ''y'']],
               ev_err = Some (Error ''driver: bad connection'')\<rparr>] = trace (fresh 1) @ evs
          \<and> evs \<noteq> [] \<and> ev_err (last evs) = Some (Error ''driver: bad connection''))
   \<and> Error ''driver: bad connection'' \<notin> set sentinels
   \<and> TxHandle_Commit sample \<lparr>T = Some 0\<rparr> (fresh 1) =
     Inr (None, \<lparr>trace = [\<lparr>ev_call = TxCommit 0, ev_err = None\<rparr>],
                 db = \<lparr>tx_done = True, execs_left = 1, cells = []\<rparr>\<rparr>)"
proof -
  have b: "BatchInsert sample \<lparr>S = Some 0\<rparr> [\<lparr>V = [VInt 1, VStr ''x'']\<rparr>, \<lparr>V = [VInt 2, VStr ''y'']\<rparr>]
       (fresh 1) =
     Inr (Some (Error ''driver: bad connection''),
          \<lparr>trace = [\<lparr>ev_call = StmtExec 0 [VSlice [VInt 1, VStr ''x'']], ev_err = None\<rparr>,
                    \<lparr>ev_call = StmtExec 0 [VSlice [VInt 2, VStr ''y'']],
                     ev_err = Some (Error ''driver: bad connection'')\<rparr>],
           db = \<lparr>tx_done = False, execs_left = 0, cells = []\<rparr>\<rparr>)"
    by (simp add: BatchInsert_def DbStmt_Exec_def sql_defs call_on_def sample_defs)
  have c: "TxHandle_Commit sample \<lparr>T = Some 0\<rparr> (fresh 1) =
     Inr (None, \<lparr>trace = [\<lparr>ev_call = TxCommit 0, ev_err = None\<rparr>],
                 db = \<lparr>tx_done = True, execs_left = 1, cells = []\<rparr>\<rparr>)"
    by (simp add: TxHandle_Commit_def sql_defs call_on_def sample_defs)
  have n: "Error ''driver: bad connection'' \<notin> set sentinels"
    by (simp add: sentinels_def ErrDbInsert_def ErrDbSelect_def ErrDbUpdate_def ErrStmtCreate_def
          ErrStmtClose_def ErrStmtExec_def ErrTxnBegin_def ErrTxnCommit_def)
  from errors_come_from_the_library [where d = sample and st = "\<lparr>S = Some 0\<rparr>"
      and rows = "[\<lparr>V = [VInt 1, VStr ''x'']\<rparr>, \<lparr>V = [VInt 2, VStr ''y'']\<rparr>]" and w = "fresh 1"
      and e = "Some (Error ''driver: bad connection'')"
      and w' = "\<lparr>trace = [\<lparr>ev_call = StmtExec 0 [VSlice [VInt 1, VStr ''x'']], ev_err = None\<rparr>,
                    \<lparr>ev_call = StmtExec 0 [VSlice [VInt 2, VStr ''y'']],
                     ev_err = Some (Error ''driver: bad connection'')\<rparr>],
           db = \<lparr>tx_done = False, execs_left = 0, cells = []\<rparr>\<rparr>"] b
  have "\<exists>evs. [\<lparr>ev_call = StmtExec 0 [VSlice [VInt 1, VStr ''x'']], ev_err = None\<rparr>,
              \<lparr>ev_call = StmtExec 0 [VSlice [VInt 2, VStr ''y'']],
               ev_err = Some (Error ''driver: bad connection'')\<rparr>] = trace (fresh 1) @ evs
          \<and> evs \<noteq> [] \<and> ev_err (last evs) = Some (Error ''driver: bad connection'')"
    by simp
  with b c n show ?thesis by blast
qed

end
